theory Spec2Isabelle
  imports Main "HOL-Library.Word"
begin

section \<open>JavaScript strings and the localised constants\<close>

text \<open>
  A JavaScript string is a sequence of UTF-16 code units. \<open>lit\<close> embeds an ASCII
  literal; the two accented letters of the Portuguese texts are written as their
  code units (\<open>0xED\<close> for i-acute, \<open>0xE1\<close> for a-acute).
\<close>

type_synonym jsstring = "16 word list"

definition lit :: "string \<Rightarrow> jsstring" where
  "lit s = map of_char s"

text \<open>
  \<^verbatim>\<open>const deviceLang = RNLocalize.getLocales()[0]?.languageCode || 'en';\<close>
  \<^verbatim>\<open>const isPt = deviceLang.startsWith('pt');\<close>
  The argument is the list of language codes of \<open>getLocales()\<close>. An empty list
  gives \<open>undefined\<close> and an empty code is falsy: both fall back to \<open>'en'\<close>.
\<close>

definition deviceLang :: "jsstring list \<Rightarrow> jsstring" where
  "deviceLang locales =
     (case locales of
        [] \<Rightarrow> lit ''en''
      | code # _ \<Rightarrow> (if code = [] then lit ''en'' else code))"

definition isPt :: "jsstring list \<Rightarrow> bool" where
  "isPt locales = (take 2 (deviceLang locales) = lit ''pt'')"

definition TRANSLATION_ID :: "bool \<Rightarrow> jsstring" where
  "TRANSLATION_ID pt = (if pt then lit ''almeida'' else lit ''web'')"

definition API_URL :: "bool \<Rightarrow> jsstring" where
  "API_URL pt = lit ''https://bible-api.com/data/'' @ TRANSLATION_ID pt @ lit ''/random''"

definition BUTTON_LABEL :: "bool \<Rightarrow> jsstring" where
  "BUTTON_LABEL pt =
     (if pt then lit ''Novo Vers'' @ [0xED] @ lit ''culo'' else lit ''New Verse'')"

definition NOTIF_TITLE :: "bool \<Rightarrow> jsstring" where
  "NOTIF_TITLE pt =
     (if pt then lit ''Vers'' @ [0xED] @ lit ''culo Di'' @ [0xE1] @ lit ''rio''
      else lit ''Daily Verse'')"

definition NOTIF_BODY :: "bool \<Rightarrow> jsstring" where
  "NOTIF_BODY pt =
     (if pt then lit ''Toque para abrir o app e ler um vers'' @ [0xED] @ lit ''culo!''
      else lit ''Tap to open the app and read a verse!'')"

definition LAST_OPEN_KEY :: jsstring where
  "LAST_OPEN_KEY = lit ''@bible:last_open_date''"

text \<open>The text of the \<open>catch\<close> clause of \<open>fetchVerse\<close>: \<^verbatim>\<open>'Erro ao obter versiculo.'\<close>
  (with i-acute), the same literal in every copy of the source.\<close>

definition FETCH_ERROR_TEXT :: jsstring where
  "FETCH_ERROR_TEXT = lit ''Erro ao obter vers'' @ [0xED] @ lit ''culo.''"

section \<open>JavaScript values as \<open>res.json()\<close> yields them\<close>

text \<open>
  \<open>Num\<close> holds an integral JSON number between \<open>-2^53\<close> and \<open>2^53 - 1\<close>, as a
  signed word of 54 bits: the integers a double holds exactly and prints by their
  digits. Fractions and larger numbers are not modelled. \<open>Obj\<close> lists the own properties of a parsed object
  (keys distinct; the first entry of a key is the one looked up).
  \<open>Undefined\<close> never occurs inside a parsed body: it is what reading a missing
  property gives.
\<close>

datatype jsval =
    Undefined
  | Null
  | Bool bool
  | Num "54 word"
  | Str jsstring
  | Arr "jsval list"
  | Obj "(jsstring \<times> jsval) list"

datatype js_error = NetworkRequestFailed | JsonParseError | TypeError

definition and_then :: "js_error + 'a \<Rightarrow> ('a \<Rightarrow> js_error + 'b) \<Rightarrow> js_error + 'b" where
  "and_then r f = (case r of Inl e \<Rightarrow> Inl e | Inr x \<Rightarrow> f x)"

text \<open>
  Property read \<open>v.k\<close>, for the five names the program reads (\<open>random_verse\<close>,
  \<open>text\<close>, \<open>book\<close>, \<open>chapter\<close>, \<open>verse\<close>), none of which a built-in prototype
  defines: \<open>null\<close> and \<open>undefined\<close> throw a TypeError, an object gives its own
  property or \<open>undefined\<close>, every other value gives \<open>undefined\<close>.
\<close>

definition get_prop :: "jsval \<Rightarrow> jsstring \<Rightarrow> js_error + jsval" where
  "get_prop v k =
     (case v of
        Undefined \<Rightarrow> Inl TypeError
      | Null \<Rightarrow> Inl TypeError
      | Obj kvs \<Rightarrow> Inr (case map_of kvs k of None \<Rightarrow> Undefined | Some x \<Rightarrow> x)
      | _ \<Rightarrow> Inr Undefined)"

text \<open>\<^verbatim>\<open>v ?? d\<close>\<close>

definition nullish :: "jsval \<Rightarrow> jsval \<Rightarrow> jsval" where
  "nullish v d = (case v of Undefined \<Rightarrow> d | Null \<Rightarrow> d | _ \<Rightarrow> v)"

text \<open>
  \<open>String.prototype.trim\<close> strips the code units of WhiteSpace and LineTerminator
  from both ends.
\<close>

definition is_ws :: "16 word \<Rightarrow> bool" where
  "is_ws c =
     (c \<in> set [0x09, 0x0A, 0x0B, 0x0C, 0x0D, 0x20, 0xA0, 0x1680, 0x2028, 0x2029,
                0x202F, 0x205F, 0x3000, 0xFEFF]
      \<or> (0x2000 \<le> c \<and> c \<le> 0x200A))"

definition trim :: "jsstring \<Rightarrow> jsstring" where
  "trim s = rev (dropWhile is_ws (rev (dropWhile is_ws s)))"

text \<open>\<^verbatim>\<open>v.trim()\<close>: only a string has the method; on any other value the call
  throws a TypeError (a parsed object cannot hold a function).\<close>

definition call_trim :: "jsval \<Rightarrow> js_error + jsstring" where
  "call_trim v = (case v of Str s \<Rightarrow> Inr (trim s) | _ \<Rightarrow> Inl TypeError)"

fun show_nat :: "nat \<Rightarrow> jsstring" where
  "show_nat n =
     (if n < 10 then [0x30 + of_nat n]
      else show_nat (n div 10) @ [0x30 + of_nat (n mod 10)])"

text \<open>The decimal digits of an integer, with a minus sign when it is negative.
  \<open>to_string\<close> applies it to the value of a \<open>Num\<close> only.\<close>

definition show_int :: "int \<Rightarrow> jsstring" where
  "show_int i = (if i < 0 then lit ''-'' @ show_nat (nat (- i)) else show_nat (nat i))"

text \<open>
  The conversion to string of a template literal \<^verbatim>\<open>`${v}`\<close>. An array joins its
  elements with commas, \<open>null\<close> and \<open>undefined\<close> elements giving the empty string.
  A parsed object prints as \<open>[object Object]\<close>, unless it has an own property
  \<open>toString\<close>: that property is not callable, \<open>valueOf\<close> gives no primitive, and the
  conversion throws a TypeError.
\<close>

fun to_string :: "jsval \<Rightarrow> js_error + jsstring"
  and join :: "jsval list \<Rightarrow> js_error + jsstring" where
  "to_string Undefined = Inr (lit ''undefined'')"
| "to_string Null = Inr (lit ''null'')"
| "to_string (Bool b) = Inr (if b then lit ''true'' else lit ''false'')"
| "to_string (Num n) = Inr (show_int (sint n))"
| "to_string (Str s) = Inr s"
| "to_string (Arr xs) = join xs"
| "to_string (Obj kvs) =
     (if map_of kvs (lit ''toString'') \<noteq> None then Inl TypeError
      else Inr (lit ''[object Object]''))"
| "join [] = Inr []"
| "join (x # xs) =
     (case (if x = Undefined \<or> x = Null then Inr [] else to_string x) of
        Inl e \<Rightarrow> Inl e
      | Inr s \<Rightarrow>
          (if xs = [] then Inr s
           else (case join xs of Inl e \<Rightarrow> Inl e | Inr t \<Rightarrow> Inr (s @ lit '','' @ t))))"

section \<open>The component state, the device and the effect log\<close>

record verse =
  "text" :: jsstring
  reference :: jsstring

datatype stage = Loading | Open | Turn | Display

text \<open>
  A local date-time is a calendar day (counted in days) and the milliseconds
  since local midnight. \<open>setDate(getDate() + 1)\<close> moves to the next day and keeps
  the time of day.
\<close>

type_synonym local_time = "int \<times> nat"

datatype trigger =
    DateTrigger local_time jsstring
  | TimeTrigger nat nat bool jsstring

record notification =
  title :: jsstring
  body :: jsstring
  data_reference :: jsstring
  trigger :: trigger

datatype effect =
    Fetch jsstring
  | ConsoleError js_error
  | SetVerse verse
  | SetLoading bool
  | SetStage stage
  | GetItem jsstring
  | CancelAll
  | Schedule notification
  | SetItem jsstring jsstring

text \<open>
  \<open>verse\<close>, \<open>loading\<close> and \<open>stage\<close> are the three \<open>useState\<close> cells; \<open>storage\<close> is
  AsyncStorage, \<open>scheduled\<close> the notifications the device holds, and \<open>log\<close> every
  external call and state write in the order it happened.
\<close>

record world =
  verse :: verse
  loading :: bool
  stage :: stage
  storage :: "jsstring \<rightharpoonup> jsstring"
  scheduled :: "notification list"
  log :: "effect list"

definition emit :: "effect \<Rightarrow> world \<Rightarrow> world" where
  "emit e w = w\<lparr>log := log w @ [e]\<rparr>"

definition setVerse :: "verse \<Rightarrow> world \<Rightarrow> world" where
  "setVerse v w = emit (SetVerse v) (w\<lparr>verse := v\<rparr>)"

definition setLoading :: "bool \<Rightarrow> world \<Rightarrow> world" where
  "setLoading b w = emit (SetLoading b) (w\<lparr>loading := b\<rparr>)"

definition setStage :: "stage \<Rightarrow> world \<Rightarrow> world" where
  "setStage st w = emit (SetStage st) (w\<lparr>stage := st\<rparr>)"

text \<open>The state of a fresh mount: \<^verbatim>\<open>useState({ text: '', reference: '' })\<close>,
  \<^verbatim>\<open>useState(true)\<close>, \<^verbatim>\<open>useState('loading')\<close>. Storage and the scheduled
  notifications outlive the process, so they are parameters.\<close>

definition INITIAL_VERSE :: verse where
  "INITIAL_VERSE = \<lparr>text = [], reference = []\<rparr>"

definition init :: "(jsstring \<rightharpoonup> jsstring) \<Rightarrow> notification list \<Rightarrow> world" where
  "init st ns =
     \<lparr>verse = INITIAL_VERSE, loading = True, stage = Loading,
      storage = st, scheduled = ns, log = []\<rparr>"

section \<open>fetchVerse\<close>

text \<open>What \<^verbatim>\<open>await fetch(API_URL)\<close> followed by \<^verbatim>\<open>await res.json()\<close> can give:
  the request is rejected, the body does not parse, or a value is parsed.\<close>

datatype fetch_outcome = NetworkError | BodyNotJson | BodyJson jsval

text \<open>
  The \<open>try\<close> block up to the argument of \<open>setVerse\<close>:
  \<^verbatim>\<open>
  const rv = json.random_verse;
  { text: (rv.text ?? '').trim(),
    reference: `${rv.book} ${rv.chapter}:${rv.verse}` }
  \<close>
\<close>

definition verse_of_json :: "jsval \<Rightarrow> js_error + verse" where
  "verse_of_json json =
     and_then (get_prop json (lit ''random_verse'')) (\<lambda>rv.
     and_then (get_prop rv (lit ''text'')) (\<lambda>t.
     and_then (call_trim (nullish t (Str []))) (\<lambda>txt.
     and_then (get_prop rv (lit ''book'')) (\<lambda>b.
     and_then (to_string b) (\<lambda>bs.
     and_then (get_prop rv (lit ''chapter'')) (\<lambda>c.
     and_then (to_string c) (\<lambda>cs.
     and_then (get_prop rv (lit ''verse'')) (\<lambda>n.
     and_then (to_string n) (\<lambda>ns.
       Inr \<lparr>text = txt, reference = bs @ lit '' '' @ cs @ lit '':'' @ ns\<rparr>)))))))))"

definition fetch_try :: "fetch_outcome \<Rightarrow> js_error + verse" where
  "fetch_try out =
     (case out of
        NetworkError \<Rightarrow> Inl NetworkRequestFailed
      | BodyNotJson \<Rightarrow> Inl JsonParseError
      | BodyJson json \<Rightarrow> verse_of_json json)"

text \<open>
  \<^verbatim>\<open>
  async function fetchVerse() {
    setLoading(true);
    try { ... setVerse({...}); }
    catch (e) {
      console.error('Fetch error:', e);
      setVerse({ text: 'Erro ao obter versiculo.', reference: '' });
    }
    setLoading(false);
  }
  \<close>
  The \<open>catch\<close> clause takes every error of the \<open>try\<close> block, and nothing in it
  throws, so the function has no error result.
\<close>

definition fetchVerse :: "bool \<Rightarrow> fetch_outcome \<Rightarrow> world \<Rightarrow> world" where
  "fetchVerse pt out w =
     (let w1 = emit (Fetch (API_URL pt)) (setLoading True w);
          w2 = (case fetch_try out of
                  Inr v \<Rightarrow> setVerse v w1
                | Inl e \<Rightarrow>
                    setVerse \<lparr>text = FETCH_ERROR_TEXT, reference = []\<rparr>
                      (emit (ConsoleError e) w1))
      in setLoading False w2)"

section \<open>The notification scheduler\<close>

text \<open>
  A reading of \<^verbatim>\<open>new Date()\<close>: \<open>iso_date\<close> is \<^verbatim>\<open>toISOString().split('T')[0]\<close>, the
  calendar date in UTC; \<open>local_day\<close> and \<open>local_ms\<close> are the local calendar day and
  the milliseconds since local midnight, which is what \<open>setHours\<close>, \<open>getDate\<close> and
  \<open>setDate\<close> work on. One call of the scheduler reads the clock up to three
  times: for \<open>today\<close>, for \<open>triggerDate\<close>, and for the comparison with it.
\<close>

record js_date =
  iso_date :: jsstring
  local_day :: int
  local_ms :: nat

record clock =
  at_today :: js_date
  at_trigger :: js_date
  at_compare :: js_date

text \<open>Ten o'clock, in milliseconds since midnight: \<^verbatim>\<open>setHours(10, 0, 0, 0)\<close>.\<close>

definition TEN_AM :: nat where
  "TEN_AM = 10 * 60 * 60 * 1000"

text \<open>\<^verbatim>\<open>a >= b\<close> on two dates compares the instants; on one clock that is the
  order of day and time of day.\<close>

definition date_ge :: "local_time \<Rightarrow> local_time \<Rightarrow> bool" where
  "date_ge a b = (fst a > fst b \<or> (fst a = fst b \<and> snd a \<ge> snd b))"

text \<open>
  \<^verbatim>\<open>
  let triggerDate = new Date();
  triggerDate.setHours(10, 0, 0, 0);
  if (new Date() >= triggerDate) triggerDate.setDate(triggerDate.getDate() + 1);
  \<close>
\<close>

definition triggerDate :: "js_date \<Rightarrow> js_date \<Rightarrow> local_time" where
  "triggerDate t1 t2 =
     (let d = (local_day t1, TEN_AM)
      in if date_ge (local_day t2, local_ms t2) d then (fst d + 1, snd d) else d)"

text \<open>\<^verbatim>\<open>verse.text || NOTIF_BODY\<close>: the empty string is the only falsy string.\<close>

definition or_else :: "jsstring \<Rightarrow> jsstring \<Rightarrow> jsstring" where
  "or_else a b = (if a = [] then b else a)"

text \<open>The three SDK calls, as they act when they succeed.\<close>

definition cancelAllScheduledNotificationsAsync :: "world \<Rightarrow> world" where
  "cancelAllScheduledNotificationsAsync w = emit CancelAll (w\<lparr>scheduled := []\<rparr>)"

definition scheduleNotificationAsync :: "notification \<Rightarrow> world \<Rightarrow> world" where
  "scheduleNotificationAsync n w = emit (Schedule n) (w\<lparr>scheduled := scheduled w @ [n]\<rparr>)"

definition setItem :: "jsstring \<Rightarrow> jsstring \<Rightarrow> world \<Rightarrow> world" where
  "setItem k v w = emit (SetItem k v) (w\<lparr>storage := (storage w)(k \<mapsto> v)\<rparr>)"

text \<open>
  The scheduler of the one-shot builds. \<open>v\<close> is the \<open>verse\<close> the function closes
  over: the constant of the render that created it.
  \<^verbatim>\<open>
  async function scheduleIfNeeded() {
    const today = new Date().toISOString().split('T')[0];
    const lastOpen = await AsyncStorage.getItem(LAST_OPEN_KEY);
    if (lastOpen !== today) {
      ... triggerDate ...
      await Notifications.cancelAllScheduledNotificationsAsync();
      await Notifications.scheduleNotificationAsync({
        content: { title: NOTIF_TITLE, body: verse.text || NOTIF_BODY,
                   data: { reference: verse.reference } },
        trigger: { type: 'date', date: triggerDate, channelId: 'default' },
      });
    }
    await AsyncStorage.setItem(LAST_OPEN_KEY, today);
  }
  \<close>
\<close>

definition scheduleIfNeeded :: "bool \<Rightarrow> verse \<Rightarrow> clock \<Rightarrow> world \<Rightarrow> world" where
  "scheduleIfNeeded pt v clk w =
     (let today = iso_date (at_today clk);
          lastOpen = storage w LAST_OPEN_KEY;
          w1 = emit (GetItem LAST_OPEN_KEY) w;
          w2 = (if lastOpen \<noteq> Some today then
                  scheduleNotificationAsync
                    \<lparr>title = NOTIF_TITLE pt,
                     body = or_else (text v) (NOTIF_BODY pt),
                     data_reference = reference v,
                     trigger = DateTrigger (triggerDate (at_trigger clk) (at_compare clk))
                                 (lit ''default'')\<rparr>
                    (cancelAllScheduledNotificationsAsync w1)
                else w1)
      in setItem LAST_OPEN_KEY today w2)"

text \<open>
  The scheduler of the repeating build (App.js): the trigger is a time of day
  that repeats, and the key is written inside the \<open>if\<close>.
  \<^verbatim>\<open>
  async function scheduleDailyNotification() {
    const today = new Date().toISOString().split('T')[0];
    const lastOpen = await AsyncStorage.getItem(LAST_OPEN_KEY);
    if (lastOpen !== today) {
      await Notifications.cancelAllScheduledNotificationsAsync();
      await Notifications.scheduleNotificationAsync({
        content: { ... },
        trigger: { hour: 10, minute: 0, repeats: true, channelId: 'default' },
      });
      await AsyncStorage.setItem(LAST_OPEN_KEY, today);
    }
  }
  \<close>
\<close>

definition scheduleDailyNotification :: "bool \<Rightarrow> verse \<Rightarrow> clock \<Rightarrow> world \<Rightarrow> world" where
  "scheduleDailyNotification pt v clk w =
     (let today = iso_date (at_today clk);
          lastOpen = storage w LAST_OPEN_KEY;
          w1 = emit (GetItem LAST_OPEN_KEY) w
      in if lastOpen \<noteq> Some today then
           setItem LAST_OPEN_KEY today
             (scheduleNotificationAsync
                \<lparr>title = NOTIF_TITLE pt,
                 body = or_else (text v) (NOTIF_BODY pt),
                 data_reference = reference v,
                 trigger = TimeTrigger 10 0 True (lit ''default'')\<rparr>
                (cancelAllScheduledNotificationsAsync w1))
         else w1)"

datatype build = OneShot | Repeating

definition run_scheduler :: "build \<Rightarrow> bool \<Rightarrow> verse \<Rightarrow> clock \<Rightarrow> world \<Rightarrow> world" where
  "run_scheduler b pt v clk w =
     (case b of
        OneShot \<Rightarrow> scheduleIfNeeded pt v clk w
      | Repeating \<Rightarrow> scheduleDailyNotification pt v clk w)"

section \<open>The stage controller\<close>

text \<open>
  The effect that runs once after the first render, and the handler of the
  button. Both close over the \<open>verse\<close> of the render they belong to, a constant
  that \<open>setVerse\<close> cannot change, so the scheduler they call reads the verse from
  before the fetch. The dependency of the effect is a constant of the module, so
  the effect belongs to the first render, whose \<open>verse\<close> is the initial value of
  \<open>useState\<close>. The handler belongs to the render on screen when the button is
  pressed, whose \<open>verse\<close> is the one the state holds then.
  \<^verbatim>\<open>
  useEffect(() => { (async () => {
      await fetchVerse();
      await scheduleIfNeeded();
      setStage('open');
  })(); }, [TRANSLATION_ID]);

  async function handleRefresh() {
    setStage('open');
    await fetchVerse();
    await scheduleIfNeeded();
  }
  \<close>
\<close>

definition useEffect_launch :: "build \<Rightarrow> bool \<Rightarrow> fetch_outcome \<Rightarrow> clock \<Rightarrow> world \<Rightarrow> world" where
  "useEffect_launch b pt out clk w =
     (let v = INITIAL_VERSE
      in setStage Open (run_scheduler b pt v clk (fetchVerse pt out w)))"

definition handleRefresh :: "build \<Rightarrow> bool \<Rightarrow> fetch_outcome \<Rightarrow> clock \<Rightarrow> world \<Rightarrow> world" where
  "handleRefresh b pt out clk w =
     (let v = verse w
      in run_scheduler b pt v clk (fetchVerse pt out (setStage Open w)))"

text \<open>\<^verbatim>\<open>onAnimationFinish={() => setStage('display')}\<close>, a property of the
  animation view, which is rendered under
  \<^verbatim>\<open>(stage === 'open' || stage === 'turn')\<close>; the card is rendered under
  \<^verbatim>\<open>stage === 'display'\<close>.\<close>

definition onAnimationFinish :: "world \<Rightarrow> world" where
  "onAnimationFinish w = setStage Display w"

definition lottie_rendered :: "world \<Rightarrow> bool" where
  "lottie_rendered w = (stage w = Open \<or> stage w = Turn)"

definition card_rendered :: "world \<Rightarrow> bool" where
  "card_rendered w = (stage w = Display)"

text \<open>
  The events that write the stage, each with what the environment supplies. The
  launch effect writes the stage when it ends and the refresh handler when it
  starts, so as far as the stage goes an execution is a sequence of these events
  in the order of their stage writes. The animation can finish only while its
  view is rendered.
\<close>

datatype event =
    LaunchDone fetch_outcome clock
  | RefreshPressed fetch_outcome clock
  | AnimationFinish

fun step :: "build \<Rightarrow> bool \<Rightarrow> event \<Rightarrow> world \<Rightarrow> world" where
  "step b pt (LaunchDone out clk) w = useEffect_launch b pt out clk w"
| "step b pt (RefreshPressed out clk) w = handleRefresh b pt out clk w"
| "step b pt AnimationFinish w = (if lottie_rendered w then onAnimationFinish w else w)"

fun run :: "build \<Rightarrow> bool \<Rightarrow> event list \<Rightarrow> world \<Rightarrow> world" where
  "run b pt [] w = w"
| "run b pt (ev # evs) w = run b pt evs (step b pt ev w)"

section \<open>Predicates on outcomes and effects, and sample inputs\<close>

text \<open>The body has no verse record: \<open>json.random_verse\<close> cannot be read, or it is
  \<open>undefined\<close> or \<open>null\<close>.\<close>

definition verse_record_absent :: "jsval \<Rightarrow> bool" where
  "verse_record_absent json =
     (case get_prop json (lit ''random_verse'') of
        Inl e \<Rightarrow> True
      | Inr rv \<Rightarrow> rv = Undefined \<or> rv = Null)"

fun no_verse_record :: "fetch_outcome \<Rightarrow> bool" where
  "no_verse_record NetworkError = True"
| "no_verse_record BodyNotJson = True"
| "no_verse_record (BodyJson json) = verse_record_absent json"

fun is_schedule :: "effect \<Rightarrow> bool" where
  "is_schedule (Schedule n) = True"
| "is_schedule e = False"


fun is_scheduler_effect :: "effect \<Rightarrow> bool" where
  "is_scheduler_effect (GetItem k) = True"
| "is_scheduler_effect CancelAll = True"
| "is_scheduler_effect (Schedule n) = True"
| "is_scheduler_effect (SetItem k v) = True"
| "is_scheduler_effect e = False"

definition reading :: "jsstring \<Rightarrow> int \<Rightarrow> nat \<Rightarrow> js_date" where
  "reading s d ms = \<lparr>iso_date = s, local_day = d, local_ms = ms\<rparr>"

text \<open>A clock that stands still during one call of the scheduler.\<close>

definition clock_at :: "js_date \<Rightarrow> clock" where
  "clock_at t = \<lparr>at_today = t, at_trigger = t, at_compare = t\<rparr>"

text \<open>A body as the API documents it (section 6 of the specification).\<close>

definition genesis_body :: jsval where
  "genesis_body =
     Obj [(lit ''random_verse'',
           Obj [(lit ''book'', Str (lit ''Genesis'')), (lit ''chapter'', Num 1),
                (lit ''verse'', Num 1),
                (lit ''text'', Str (lit ''In the beginning\<newline>''))])]"

text \<open>Days are counted from 1970-01-01: 2024-01-01 is day 19723.\<close>

definition jan1 :: "nat \<Rightarrow> js_date" where
  "jan1 ms = reading (lit ''2024-01-01'') 19723 ms"

definition jan2 :: "nat \<Rightarrow> js_date" where
  "jan2 ms = reading (lit ''2024-01-02'') 19724 ms"

definition opened_jan1 :: world where
  "opened_jan1 = init (Map.empty(LAST_OPEN_KEY \<mapsto> lit ''2024-01-01'')) []"

text \<open>The same device while a verse is on display.\<close>

definition showing_psalm :: world where
  "showing_psalm =
     opened_jan1\<lparr>verse := \<lparr>text = lit ''The Lord is my shepherd'',
                                reference = lit ''Psalms 23:1''\<rparr>,
                   loading := False, stage := Display\<rparr>"

section \<open>What one call of a scheduler does\<close>

lemmas sdk_defs = emit_def setVerse_def setLoading_def setStage_def
  cancelAllScheduledNotificationsAsync_def scheduleNotificationAsync_def setItem_def

lemmas sample_defs = jan1_def jan2_def reading_def clock_at_def opened_jan1_def init_def
  INITIAL_VERSE_def

lemma scheduleIfNeeded_fresh:
  "storage w LAST_OPEN_KEY \<noteq> Some (iso_date (at_today clk)) \<Longrightarrow>
   scheduleIfNeeded pt v clk w =
     w\<lparr>storage := (storage w)(LAST_OPEN_KEY \<mapsto> iso_date (at_today clk)),
       scheduled :=
         [\<lparr>title = NOTIF_TITLE pt, body = or_else (text v) (NOTIF_BODY pt),
           data_reference = reference v,
           trigger = DateTrigger (triggerDate (at_trigger clk) (at_compare clk))
                       (lit ''default'')\<rparr>],
       log := log w @
         [GetItem LAST_OPEN_KEY, CancelAll,
          Schedule \<lparr>title = NOTIF_TITLE pt, body = or_else (text v) (NOTIF_BODY pt),
                    data_reference = reference v,
                    trigger = DateTrigger (triggerDate (at_trigger clk) (at_compare clk))
                                (lit ''default'')\<rparr>,
          SetItem LAST_OPEN_KEY (iso_date (at_today clk))]\<rparr>"
  by (simp add: scheduleIfNeeded_def sdk_defs Let_def)

lemma scheduleIfNeeded_same:
  "storage w LAST_OPEN_KEY = Some (iso_date (at_today clk)) \<Longrightarrow>
   scheduleIfNeeded pt v clk w =
     w\<lparr>log := log w @ [GetItem LAST_OPEN_KEY,
                        SetItem LAST_OPEN_KEY (iso_date (at_today clk))]\<rparr>"
  by (simp add: scheduleIfNeeded_def sdk_defs Let_def map_upd_triv)

lemma scheduleDaily_fresh:
  "storage w LAST_OPEN_KEY \<noteq> Some (iso_date (at_today clk)) \<Longrightarrow>
   scheduleDailyNotification pt v clk w =
     w\<lparr>storage := (storage w)(LAST_OPEN_KEY \<mapsto> iso_date (at_today clk)),
       scheduled :=
         [\<lparr>title = NOTIF_TITLE pt, body = or_else (text v) (NOTIF_BODY pt),
           data_reference = reference v,
           trigger = TimeTrigger 10 0 True (lit ''default'')\<rparr>],
       log := log w @
         [GetItem LAST_OPEN_KEY, CancelAll,
          Schedule \<lparr>title = NOTIF_TITLE pt, body = or_else (text v) (NOTIF_BODY pt),
                    data_reference = reference v,
                    trigger = TimeTrigger 10 0 True (lit ''default'')\<rparr>,
          SetItem LAST_OPEN_KEY (iso_date (at_today clk))]\<rparr>"
  by (simp add: scheduleDailyNotification_def sdk_defs Let_def)

lemma scheduleDaily_same:
  "storage w LAST_OPEN_KEY = Some (iso_date (at_today clk)) \<Longrightarrow>
   scheduleDailyNotification pt v clk w = w\<lparr>log := log w @ [GetItem LAST_OPEN_KEY]\<rparr>"
  by (simp add: scheduleDailyNotification_def sdk_defs Let_def)

lemma run_scheduler_fresh_log:
  "storage w LAST_OPEN_KEY \<noteq> Some (iso_date (at_today clk)) \<Longrightarrow>
   \<exists>n. log (run_scheduler b pt v clk w) =
          log w @ [GetItem LAST_OPEN_KEY, CancelAll, Schedule n,
                   SetItem LAST_OPEN_KEY (iso_date (at_today clk))]
      \<and> scheduled (run_scheduler b pt v clk w) = [n]
      \<and> body n = or_else (text v) (NOTIF_BODY pt)"
  by (cases b) (simp_all add: run_scheduler_def scheduleIfNeeded_fresh scheduleDaily_fresh)

lemma run_scheduler_stored:
  "storage (run_scheduler b pt v clk w) LAST_OPEN_KEY = Some (iso_date (at_today clk))"
  by (cases b; cases "storage w LAST_OPEN_KEY = Some (iso_date (at_today clk))")
     (simp_all add: run_scheduler_def scheduleIfNeeded_fresh scheduleDaily_fresh
        scheduleIfNeeded_same scheduleDaily_same)

lemma run_scheduler_same:
  "storage w LAST_OPEN_KEY = Some (iso_date (at_today clk)) \<Longrightarrow>
   run_scheduler b pt v clk w =
     w\<lparr>log := log w @ (case b of
          OneShot \<Rightarrow> [GetItem LAST_OPEN_KEY, SetItem LAST_OPEN_KEY (iso_date (at_today clk))]
        | Repeating \<Rightarrow> [GetItem LAST_OPEN_KEY])\<rparr>"
  by (cases b) (simp_all add: run_scheduler_def scheduleIfNeeded_same scheduleDaily_same)

lemma run_scheduler_log_prefix:
  "\<exists>ss. log (run_scheduler b pt v clk w) = log w @ ss
      \<and> length (filter is_schedule ss) \<le> 1 \<and> ss \<noteq> [] \<and> list_all is_scheduler_effect ss"
proof (cases "storage w LAST_OPEN_KEY = Some (iso_date (at_today clk))")
  case True
  then show ?thesis by (cases b) (simp_all add: run_scheduler_same)
next
  case False
  from run_scheduler_fresh_log [OF False, of b pt v]
  obtain n where "log (run_scheduler b pt v clk w) =
      log w @ [GetItem LAST_OPEN_KEY, CancelAll, Schedule n,
               SetItem LAST_OPEN_KEY (iso_date (at_today clk))]" by blast
  then show ?thesis by simp
qed


lemma triggerDate_one_reading:
  "triggerDate now now =
     (if local_ms now < TEN_AM then (local_day now, TEN_AM) else (local_day now + 1, TEN_AM))"
  by (auto simp add: triggerDate_def date_ge_def Let_def)


section \<open>The scheduler claims\<close>

text \<open>
  Claim C1. After a call of either scheduler the key \<open>LAST_OPEN_KEY\<close> holds
  today's date, whether or not the call scheduled a notification. When the key
  already holds today's date, the call leaves the storage and the scheduled
  notifications as they were: it only reads the key (and, in \<open>scheduleIfNeeded\<close>,
  writes the same value back), with no cancellation and no scheduling.
\<close>

theorem C1_last_open_is_today:
  "storage (scheduleIfNeeded pt v clk w) LAST_OPEN_KEY = Some (iso_date (at_today clk))
   \<and> storage (scheduleDailyNotification pt v clk w) LAST_OPEN_KEY
       = Some (iso_date (at_today clk))
   \<and> (storage w LAST_OPEN_KEY = Some (iso_date (at_today clk)) \<longrightarrow>
        storage (scheduleIfNeeded pt v clk w) = storage w
      \<and> scheduled (scheduleIfNeeded pt v clk w) = scheduled w
      \<and> log (scheduleIfNeeded pt v clk w) =
          log w @ [GetItem LAST_OPEN_KEY, SetItem LAST_OPEN_KEY (iso_date (at_today clk))]
      \<and> storage (scheduleDailyNotification pt v clk w) = storage w
      \<and> scheduled (scheduleDailyNotification pt v clk w) = scheduled w
      \<and> log (scheduleDailyNotification pt v clk w) = log w @ [GetItem LAST_OPEN_KEY])"
proof (cases "storage w LAST_OPEN_KEY = Some (iso_date (at_today clk))")
  case True
  then show ?thesis
    by (simp add: scheduleIfNeeded_same scheduleDaily_same)
next
  case False
  then show ?thesis
    by (simp add: scheduleIfNeeded_fresh scheduleDaily_fresh)
qed

text \<open>The scenario of the specification: last opened on 2024-01-01, called again
  on 2024-01-01.\<close>

theorem C1_witness:
  "storage opened_jan1 LAST_OPEN_KEY = Some (iso_date (at_today (clock_at (jan1 54000000))))
   \<and> storage (scheduleIfNeeded False (verse opened_jan1) (clock_at (jan1 54000000)) opened_jan1)
       = storage opened_jan1
   \<and> scheduled (scheduleIfNeeded False (verse opened_jan1) (clock_at (jan1 54000000))
        opened_jan1) = []
   \<and> storage (scheduleDailyNotification False (verse opened_jan1) (clock_at (jan1 54000000))
        opened_jan1) = storage opened_jan1
   \<and> scheduled (scheduleDailyNotification False (verse opened_jan1)
        (clock_at (jan1 54000000)) opened_jan1) = []"
proof -
  have h: "storage opened_jan1 LAST_OPEN_KEY
             = Some (iso_date (at_today (clock_at (jan1 54000000))))"
    by (simp add: sample_defs)
  have s: "scheduled opened_jan1 = []"
    by (simp add: sample_defs)
  show ?thesis
    using h s C1_last_open_is_today [of False "verse opened_jan1" "clock_at (jan1 54000000)"
        opened_jan1]
    by simp
qed




text \<open>
  Claim C4. Two calls of a scheduler with the same value of today, from any
  starting state: the two calls together schedule at most one notification, and
  the second call cancels nothing and schedules nothing (the verse and the time
  of day of the second call may differ from those of the first).
\<close>

theorem C4_idempotent_within_day:
  assumes "iso_date (at_today clk2) = iso_date (at_today clk1)"
  shows "length (filter is_schedule
           (drop (length (log w))
              (log (run_scheduler b pt v2 clk2 (run_scheduler b pt v1 clk1 w))))) \<le> 1
       \<and> scheduled (run_scheduler b pt v2 clk2 (run_scheduler b pt v1 clk1 w))
           = scheduled (run_scheduler b pt v1 clk1 w)
       \<and> (\<forall>e \<in> set (drop (length (log (run_scheduler b pt v1 clk1 w)))
                     (log (run_scheduler b pt v2 clk2 (run_scheduler b pt v1 clk1 w)))).
            e \<noteq> CancelAll \<and> \<not> is_schedule e)"
proof -
  let ?w1 = "run_scheduler b pt v1 clk1 w"
  have stored: "storage ?w1 LAST_OPEN_KEY = Some (iso_date (at_today clk2))"
    using assms by (simp add: run_scheduler_stored)
  obtain ss where ss: "log ?w1 = log w @ ss" "length (filter is_schedule ss) \<le> 1"
    using run_scheduler_log_prefix by blast
  have w2: "run_scheduler b pt v2 clk2 ?w1 =
      ?w1\<lparr>log := log ?w1 @ (case b of
          OneShot \<Rightarrow> [GetItem LAST_OPEN_KEY, SetItem LAST_OPEN_KEY (iso_date (at_today clk2))]
        | Repeating \<Rightarrow> [GetItem LAST_OPEN_KEY])\<rparr>"
    by (rule run_scheduler_same [OF stored])
  show ?thesis
    unfolding w2 using ss by (cases b) simp_all
qed

theorem C4_witness:
  "iso_date (at_today (clock_at (jan2 54000000))) = iso_date (at_today (clock_at (jan2 32400000)))
   \<and> scheduled (run_scheduler OneShot False \<lparr>text = lit ''Amen'', reference = []\<rparr>
        (clock_at (jan2 54000000))
        (run_scheduler OneShot False (verse opened_jan1) (clock_at (jan2 32400000)) opened_jan1))
     = scheduled
        (run_scheduler OneShot False (verse opened_jan1) (clock_at (jan2 32400000)) opened_jan1)"
proof -
  have h: "iso_date (at_today (clock_at (jan2 54000000)))
             = iso_date (at_today (clock_at (jan2 32400000)))"
    by (simp add: sample_defs)
  show ?thesis
    using h C4_idempotent_within_day [OF h, of opened_jan1 OneShot False
        "\<lparr>text = lit ''Amen'', reference = []\<rparr>" "verse opened_jan1"]
    by blast
qed

text \<open>
  Claim C5. Two calls of a scheduler on two different days, the first of which
  differs from the stored date: each call reads the key, cancels every scheduled
  notification, schedules one notification and writes the key, in this order,
  and leaves exactly that one notification scheduled.
\<close>

theorem C5_two_days:
  assumes "storage w LAST_OPEN_KEY \<noteq> Some (iso_date (at_today clk1))"
    and "iso_date (at_today clk2) \<noteq> iso_date (at_today clk1)"
  shows "\<exists>n1 n2.
           log (run_scheduler b pt v1 clk1 w) =
             log w @ [GetItem LAST_OPEN_KEY, CancelAll, Schedule n1,
                      SetItem LAST_OPEN_KEY (iso_date (at_today clk1))]
         \<and> scheduled (run_scheduler b pt v1 clk1 w) = [n1]
         \<and> log (run_scheduler b pt v2 clk2 (run_scheduler b pt v1 clk1 w)) =
             log (run_scheduler b pt v1 clk1 w)
               @ [GetItem LAST_OPEN_KEY, CancelAll, Schedule n2,
                  SetItem LAST_OPEN_KEY (iso_date (at_today clk2))]
         \<and> scheduled (run_scheduler b pt v2 clk2 (run_scheduler b pt v1 clk1 w)) = [n2]"
proof -
  let ?w1 = "run_scheduler b pt v1 clk1 w"
  have "storage ?w1 LAST_OPEN_KEY \<noteq> Some (iso_date (at_today clk2))"
    using assms(2) by (simp add: run_scheduler_stored)
  from run_scheduler_fresh_log [OF this, of b pt v2]
       run_scheduler_fresh_log [OF assms(1), of b pt v1]
  show ?thesis by blast
qed

theorem C5_witness:
  "storage (init Map.empty []) LAST_OPEN_KEY \<noteq> Some (iso_date (at_today (clock_at (jan1 32400000))))
   \<and> iso_date (at_today (clock_at (jan2 32400000))) \<noteq> iso_date (at_today (clock_at (jan1 32400000)))
   \<and> length (scheduled (run_scheduler Repeating True (verse (init Map.empty []))
        (clock_at (jan2 32400000))
        (run_scheduler Repeating True (verse (init Map.empty [])) (clock_at (jan1 32400000))
           (init Map.empty [])))) = 1"
proof -
  have h1: "storage (init Map.empty []) LAST_OPEN_KEY
              \<noteq> Some (iso_date (at_today (clock_at (jan1 32400000))))"
    by (simp add: init_def)
  have h2: "iso_date (at_today (clock_at (jan2 32400000)))
              \<noteq> iso_date (at_today (clock_at (jan1 32400000)))"
    by (simp add: sample_defs lit_def)
  from C5_two_days [OF h1 h2, of Repeating True "verse (init Map.empty [])"
      "verse (init Map.empty [])"]
  obtain n2 where "scheduled (run_scheduler Repeating True (verse (init Map.empty []))
        (clock_at (jan2 32400000))
        (run_scheduler Repeating True (verse (init Map.empty [])) (clock_at (jan1 32400000))
           (init Map.empty []))) = [n2]" by blast
  then show ?thesis using h1 h2 by simp
qed

section \<open>What fetchVerse does\<close>

lemmas json_defs = fetch_try_def verse_of_json_def and_then_def get_prop_def
  nullish_def call_trim_def trim_def is_ws_def show_int_def

lemma fetchVerse_eq:
  "fetchVerse pt out w =
     w\<lparr>verse := (case fetch_try out of Inr v \<Rightarrow> v
                  | Inl e \<Rightarrow> \<lparr>text = FETCH_ERROR_TEXT, reference = []\<rparr>),
       loading := False,
       log := log w @ [SetLoading True, Fetch (API_URL pt)]
                @ (case fetch_try out of Inr v \<Rightarrow> [SetVerse v]
                   | Inl e \<Rightarrow> [ConsoleError e,
                               SetVerse \<lparr>text = FETCH_ERROR_TEXT, reference = []\<rparr>])
                @ [SetLoading False]\<rparr>"
  by (simp add: fetchVerse_def sdk_defs Let_def split: sum.split)


lemma fetchVerse_frame:
  "stage (fetchVerse pt out w) = stage w"
  "storage (fetchVerse pt out w) = storage w"
  "scheduled (fetchVerse pt out w) = scheduled w"
  by (simp_all add: fetchVerse_eq)

lemma fetch_try_absent: "no_verse_record out \<Longrightarrow> \<exists>e. fetch_try out = Inl e"
proof (cases out)
  case (BodyJson json)
  assume "no_verse_record out"
  with BodyJson have a: "verse_record_absent json" by simp
  show ?thesis
  proof (cases "get_prop json (lit ''random_verse'')")
    case (Inl e)
    with BodyJson show ?thesis by (simp add: fetch_try_def verse_of_json_def and_then_def)
  next
    case (Inr rv)
    with a have "rv = Undefined \<or> rv = Null" by (simp add: verse_record_absent_def)
    with Inr BodyJson show ?thesis
      by (auto simp add: fetch_try_def verse_of_json_def and_then_def get_prop_def)
  qed
qed (simp_all add: fetch_try_def)

lemma FETCH_ERROR_TEXT_nonempty: "FETCH_ERROR_TEXT \<noteq> []"
  by (simp add: FETCH_ERROR_TEXT_def lit_def)

text \<open>A well-formed body: the text is trimmed and the reference composed.\<close>

lemma genesis_value:
  "verse (fetchVerse pt (BodyJson genesis_body) w) =
     \<lparr>text = lit ''In the beginning'', reference = lit ''Genesis 1:1''\<rparr>"
  by (simp add: fetchVerse_eq json_defs genesis_body_def lit_def)

text \<open>A verse record with none of its fields: \<^verbatim>\<open>{"random_verse": {}}\<close>. Nothing
  throws, so the \<open>catch\<close> clause does not run.\<close>

lemma empty_record_value:
  "verse (fetchVerse pt (BodyJson (Obj [(lit ''random_verse'', Obj [])])) w) =
     \<lparr>text = [], reference = lit ''undefined undefined:undefined''\<rparr>"
  by (simp add: fetchVerse_eq json_defs lit_def)

section \<open>The fetch claims\<close>

text \<open>
  Claim C2, as stated, fails on a body whose verse record lacks the expected
  fields: for \<^verbatim>\<open>{"random_verse": {}}\<close> the text is empty and the reference is
  \<open>undefined undefined:undefined\<close>.
\<close>

theorem C2_counterexample:
  "\<not> (text (verse (fetchVerse False (BodyJson (Obj [(lit ''random_verse'', Obj [])]))
              (init Map.empty []))) \<noteq> []
      \<and> reference (verse (fetchVerse False (BodyJson (Obj [(lit ''random_verse'', Obj [])]))
              (init Map.empty []))) = [])"
  by (simp add: empty_record_value)

text \<open>
  Claim C2, amended. For every fetch outcome that is a network error, a body
  that is not JSON, or a JSON body with no verse record (\<open>random_verse\<close> missing
  or \<open>null\<close>, or the body itself \<open>null\<close>), \<open>fetchVerse\<close> leaves the fallback verse:
  its text is not empty and its reference is the empty string.
\<close>

theorem C2_fallback_when_no_verse_record:
  assumes "no_verse_record out"
  shows "verse (fetchVerse pt out w) = \<lparr>text = FETCH_ERROR_TEXT, reference = []\<rparr>
       \<and> text (verse (fetchVerse pt out w)) \<noteq> []
       \<and> reference (verse (fetchVerse pt out w)) = []"
proof -
  obtain e where "fetch_try out = Inl e" using fetch_try_absent [OF assms] by blast
  then show ?thesis by (simp add: fetchVerse_eq FETCH_ERROR_TEXT_nonempty)
qed

text \<open>An error body of the API: \<^verbatim>\<open>{"error": "not found"}\<close>.\<close>

theorem C2_witness:
  "no_verse_record (BodyJson (Obj [(lit ''error'', Str (lit ''not found''))]))
   \<and> text (verse (fetchVerse False (BodyJson (Obj [(lit ''error'', Str (lit ''not found''))]))
        (init Map.empty []))) \<noteq> []
   \<and> reference (verse (fetchVerse False (BodyJson (Obj [(lit ''error'', Str (lit ''not found''))]))
        (init Map.empty []))) = []"
proof -
  have h: "no_verse_record (BodyJson (Obj [(lit ''error'', Str (lit ''not found''))]))"
    by (simp add: verse_record_absent_def get_prop_def lit_def)
  show ?thesis
    using h C2_fallback_when_no_verse_record [OF h, of False "init Map.empty []"] by blast
qed

text \<open>
  Claim C7 says the placeholder of a failed fetch matches the device locale. On a
  device whose language is \<open>en\<close>, \<open>isPt\<close> is false and the notification body is the
  English one, yet a failed fetch leaves the Portuguese sentence, the same verse
  as on a \<open>pt\<close> device. (The reference is empty and nothing is thrown, as the
  claim says.)
\<close>

theorem C7_placeholder_is_not_localised:
  "\<not> isPt [lit ''en'']
   \<and> NOTIF_BODY (isPt [lit ''en'']) = lit ''Tap to open the app and read a verse!''
   \<and> verse (fetchVerse (isPt [lit ''en'']) NetworkError (init Map.empty [])) =
       \<lparr>text = lit ''Erro ao obter vers'' @ [0xED] @ lit ''culo.'', reference = []\<rparr>
   \<and> verse (fetchVerse (isPt [lit ''pt'']) NetworkError (init Map.empty [])) =
       verse (fetchVerse (isPt [lit ''en'']) NetworkError (init Map.empty []))"
  by (simp add: isPt_def deviceLang_def NOTIF_BODY_def fetchVerse_eq fetch_try_def
        FETCH_ERROR_TEXT_def lit_def)

section \<open>The body of the notification\<close>

text \<open>
  The launch effect hands the scheduler the verse of the first render, whose
  text is empty: when it schedules, the body is the default body, whatever was
  fetched. The refresh handler hands it the verse that was on screen when the
  button was pressed, not the one it has just fetched.
\<close>

lemma launch_body_is_default:
  "storage w LAST_OPEN_KEY \<noteq> Some (iso_date (at_today clk)) \<Longrightarrow>
   map body (scheduled (useEffect_launch b pt out clk w)) = [NOTIF_BODY pt]"
  using run_scheduler_fresh_log [of "fetchVerse pt out w" clk b pt INITIAL_VERSE]
  by (auto simp add: useEffect_launch_def Let_def setStage_def emit_def fetchVerse_frame
        or_else_def INITIAL_VERSE_def)

lemma refresh_body_is_previous_verse:
  "storage w LAST_OPEN_KEY \<noteq> Some (iso_date (at_today clk)) \<Longrightarrow>
   map body (scheduled (handleRefresh b pt out clk w)) =
     [or_else (text (verse w)) (NOTIF_BODY pt)]"
  using run_scheduler_fresh_log [of "fetchVerse pt out (setStage Open w)" clk b pt "verse w"]
  by (auto simp add: handleRefresh_def Let_def setStage_def emit_def fetchVerse_frame)

text \<open>
  Claim C6 says the body of a scheduled notification is the text of the verse
  the state holds when the scheduler is called. The app was last opened on
  2024-01-01 and is used on 2024-01-02 at 09:00; the request answers with
  Genesis 1:1. At launch the state holds \<open>In the beginning\<close> when the scheduler
  is called, and the body is the default body. On a refresh while Psalms 23:1 is
  on display the state holds \<open>In the beginning\<close> as well, and the body is the
  text of the psalm.
\<close>

theorem C6_body_is_not_the_fetched_text:
  "text (verse (fetchVerse False (BodyJson genesis_body) opened_jan1))
     = lit ''In the beginning''
   \<and> map body (scheduled (useEffect_launch OneShot False (BodyJson genesis_body)
        (clock_at (jan2 32400000)) opened_jan1))
     = [lit ''Tap to open the app and read a verse!'']
   \<and> text (verse (fetchVerse False (BodyJson genesis_body) (setStage Open showing_psalm)))
     = lit ''In the beginning''
   \<and> map body (scheduled (handleRefresh OneShot False (BodyJson genesis_body)
        (clock_at (jan2 32400000)) showing_psalm))
     = [lit ''The Lord is my shepherd'']"
proof -
  have h: "storage opened_jan1 LAST_OPEN_KEY
             \<noteq> Some (iso_date (at_today (clock_at (jan2 32400000))))"
    by (simp add: sample_defs lit_def)
  have h': "storage showing_psalm LAST_OPEN_KEY
             \<noteq> Some (iso_date (at_today (clock_at (jan2 32400000))))"
    by (simp add: showing_psalm_def sample_defs lit_def)
  have v: "or_else (text (verse showing_psalm)) d = lit ''The Lord is my shepherd''" for d
    by (simp add: showing_psalm_def or_else_def lit_def)
  show ?thesis
    by (simp add: launch_body_is_default [OF h] refresh_body_is_previous_verse [OF h'] v
          genesis_value NOTIF_BODY_def)
qed

section \<open>The stage claims\<close>

lemma run_scheduler_stage: "stage (run_scheduler b pt v clk w) = stage w"
  by (cases b; cases "storage w LAST_OPEN_KEY = Some (iso_date (at_today clk))")
     (simp_all add: run_scheduler_def scheduleIfNeeded_fresh scheduleDaily_fresh
        scheduleIfNeeded_same scheduleDaily_same)

lemma useEffect_launch_stage: "stage (useEffect_launch b pt out clk w) = Open"
  by (simp add: useEffect_launch_def setStage_def emit_def Let_def)

lemma handleRefresh_stage: "stage (handleRefresh b pt out clk w) = Open"
  by (simp add: handleRefresh_def Let_def run_scheduler_stage fetchVerse_frame
        setStage_def emit_def)

lemma step_stage:
  "stage (step b pt ev w) =
     (case ev of
        LaunchDone out clk \<Rightarrow> Open
      | RefreshPressed out clk \<Rightarrow> Open
      | AnimationFinish \<Rightarrow> (if stage w = Open \<or> stage w = Turn then Display else stage w))"
  by (cases ev)
     (simp_all add: useEffect_launch_stage handleRefresh_stage lottie_rendered_def
        onAnimationFinish_def setStage_def emit_def)

lemma run_display:
  "stage (run b pt evs w) = Display \<Longrightarrow> stage w = Display \<or> AnimationFinish \<in> set evs"
proof (induction evs arbitrary: w)
  case Nil
  then show ?case by simp
next
  case (Cons ev evs)
  from Cons.prems have "stage (run b pt evs (step b pt ev w)) = Display" by simp
  from Cons.IH [OF this]
  show ?case
    by (cases ev) (auto simp add: step_stage simp del: step.simps split: if_splits)
qed

lemma run_loading:
  "stage (run b pt evs w) = Loading \<Longrightarrow>
     stage w = Loading \<and> (\<forall>ev \<in> set evs. ev = AnimationFinish)"
proof (induction evs arbitrary: w)
  case Nil
  then show ?case by simp
next
  case (Cons ev evs)
  from Cons.prems have "stage (run b pt evs (step b pt ev w)) = Loading" by simp
  from Cons.IH [OF this]
  show ?case
    by (cases ev) (auto simp add: step_stage simp del: step.simps split: if_splits)
qed

lemma run_not_turn: "stage w \<noteq> Turn \<Longrightarrow> stage (run b pt evs w) \<noteq> Turn"
proof (induction evs arbitrary: w)
  case Nil
  then show ?case by simp
next
  case (Cons ev evs)
  have "stage (step b pt ev w) \<noteq> Turn"
    using Cons.prems by (cases ev) (simp_all add: step_stage del: step.simps)
  from Cons.IH [OF this] show ?case by simp
qed

text \<open>
  Claim C8. After any sequence of events from a fresh mount: if the stage is
  \<open>display\<close>, an animation-finish event is among them; if the stage is \<open>loading\<close>,
  no launch sequence has completed (and no refresh has started) among them.
\<close>

theorem C8_stage_history:
  "(stage (run b pt evs (init st ns)) = Display \<longrightarrow> AnimationFinish \<in> set evs)
   \<and> (stage (run b pt evs (init st ns)) = Loading \<longrightarrow>
        (\<forall>out clk. LaunchDone out clk \<notin> set evs \<and> RefreshPressed out clk \<notin> set evs))"
proof -
  have "stage (init st ns) = Loading" by (simp add: init_def)
  then show ?thesis
    using run_display [of b pt evs "init st ns"] run_loading [of b pt evs "init st ns"]
    by auto
qed

theorem C8_witness:
  "stage (run OneShot False [LaunchDone NetworkError (clock_at (jan2 32400000)), AnimationFinish]
      (init Map.empty [])) = Display
   \<and> AnimationFinish \<in> set [LaunchDone NetworkError (clock_at (jan2 32400000)), AnimationFinish]
   \<and> stage (run OneShot False [AnimationFinish] (init Map.empty [])) = Loading
   \<and> LaunchDone NetworkError (clock_at (jan2 32400000)) \<notin> set [AnimationFinish]"
proof -
  have d: "stage (run OneShot False
      [LaunchDone NetworkError (clock_at (jan2 32400000)), AnimationFinish]
      (init Map.empty [])) = Display"
    by (simp add: useEffect_launch_stage lottie_rendered_def onAnimationFinish_def
          setStage_def emit_def)
  have l: "stage (run OneShot False [AnimationFinish] (init Map.empty [])) = Loading"
    by (simp add: lottie_rendered_def init_def)
  show ?thesis
    using d l
      C8_stage_history [of OneShot False
        "[LaunchDone NetworkError (clock_at (jan2 32400000)), AnimationFinish]" Map.empty "[]"]
      C8_stage_history [of OneShot False "[AnimationFinish]" Map.empty "[]"]
    by simp
qed

text \<open>Two runs in full: a launch on 2024-01-02 at 09:00 whose request fails, and a
  refresh on 2024-01-01 whose body does not parse, both after the app was opened
  on 2024-01-01.\<close>

lemma launch_log_example:
  "log (useEffect_launch OneShot False NetworkError (clock_at (jan2 32400000)) opened_jan1) =
     [SetLoading True, Fetch (API_URL False), ConsoleError NetworkRequestFailed,
      SetVerse \<lparr>text = FETCH_ERROR_TEXT, reference = []\<rparr>, SetLoading False,
      GetItem LAST_OPEN_KEY, CancelAll,
      Schedule \<lparr>title = NOTIF_TITLE False, body = NOTIF_BODY False, data_reference = [],
                trigger = DateTrigger (19724, 36000000) (lit ''default'')\<rparr>,
      SetItem LAST_OPEN_KEY (lit ''2024-01-02''),
      SetStage Open]"
  by (simp add: useEffect_launch_def Let_def run_scheduler_def scheduleIfNeeded_fresh
        setStage_def emit_def fetchVerse_eq fetch_try_def sample_defs lit_def
        triggerDate_one_reading TEN_AM_def or_else_def)

lemma refresh_log_example:
  "log (handleRefresh Repeating True BodyNotJson (clock_at (jan1 54000000)) opened_jan1) =
     [SetStage Open,
      SetLoading True, Fetch (API_URL True), ConsoleError JsonParseError,
      SetVerse \<lparr>text = FETCH_ERROR_TEXT, reference = []\<rparr>, SetLoading False,
      GetItem LAST_OPEN_KEY]"
  by (simp add: handleRefresh_def Let_def run_scheduler_def scheduleDaily_same
        setStage_def emit_def fetchVerse_eq fetch_try_def sample_defs)



text \<open>
  Claim C10. After any sequence of events from a fresh mount the stage is
  \<open>loading\<close>, \<open>open\<close> or \<open>display\<close>, never \<open>turn\<close>; so the animation view is
  rendered exactly when the stage is \<open>open\<close>, and the test for \<open>turn\<close> in the
  render condition never decides.
\<close>

theorem C10_turn_unreachable:
  "stage (run b pt evs (init st ns)) \<in> {Loading, Open, Display}
   \<and> lottie_rendered (run b pt evs (init st ns)) = (stage (run b pt evs (init st ns)) = Open)"
proof -
  have "stage (init st ns) \<noteq> Turn" by (simp add: init_def)
  from run_not_turn [OF this, of b pt evs]
  show ?thesis
    by (cases "stage (run b pt evs (init st ns))") (simp_all add: lottie_rendered_def)
qed

theorem C10_witness:
  "stage (run Repeating True
      [RefreshPressed BodyNotJson (clock_at (jan1 0)), AnimationFinish,
       LaunchDone NetworkError (clock_at (jan1 1000))] (init Map.empty []))
     \<in> {Loading, Open, Display}
   \<and> lottie_rendered (run Repeating True
      [RefreshPressed BodyNotJson (clock_at (jan1 0)), AnimationFinish,
       LaunchDone NetworkError (clock_at (jan1 1000))] (init Map.empty []))"
proof -
  have o: "stage (run Repeating True
      [RefreshPressed BodyNotJson (clock_at (jan1 0)), AnimationFinish,
       LaunchDone NetworkError (clock_at (jan1 1000))] (init Map.empty [])) = Open"
    by (simp add: useEffect_launch_stage)
  show ?thesis
    using o C10_turn_unreachable [of Repeating True
        "[RefreshPressed BodyNotJson (clock_at (jan1 0)), AnimationFinish,
          LaunchDone NetworkError (clock_at (jan1 1000))]" Map.empty "[]"]
    by simp
qed

end
